theory Spec2Isabelle
  imports Main
begin

section \<open>JavaScript values\<close>

text \<open>
  The records delivered by the host platform and the bodies returned by the backend are
  untyped JavaScript values (the interfaces carry an index signature of type any). A
  number is modelled by its integer value, with NaN apart: only the truthiness of a
  number is ever observed by the code. An object is the list of its properties; a
  property lookup takes the first binding of the key.
\<close>

datatype jsval =
    JUndefined
  | JNull
  | JBool bool
  | JNum int
  | JNaN
  | JStr string
  | JArr "jsval list"
  | JObj "(string \<times> jsval) list"

type_synonym record_payload = "(string \<times> jsval) list"

text \<open>ToBoolean: the test made by \<open>!x\<close>, \<open>x || y\<close>, \<open>x && y\<close> and \<open>x ? a : b\<close>.\<close>

fun truthy :: "jsval \<Rightarrow> bool" where
  "truthy JUndefined = False"
| "truthy JNull = False"
| "truthy (JBool b) = b"
| "truthy (JNum n) = (n \<noteq> 0)"
| "truthy JNaN = False"
| "truthy (JStr s) = (s \<noteq> [])"
| "truthy (JArr xs) = True"
| "truthy (JObj kvs) = True"

text \<open>\<open>a || b\<close>: the left operand when it is truthy, the right one otherwise.\<close>

definition js_or :: "jsval \<Rightarrow> jsval \<Rightarrow> jsval" where
  "js_or a b = (if truthy a then a else b)"

text \<open>
  \<open>x.k\<close> on a value that is neither null nor undefined, for the keys the program reads
  (none of them a built-in property of a string, a number or an array): the property of an
  object, undefined when the object lacks it or the value is a primitive.
\<close>

fun get_prop :: "jsval \<Rightarrow> string \<Rightarrow> jsval" where
  "get_prop (JObj kvs) k = (case map_of kvs k of None \<Rightarrow> JUndefined | Some v \<Rightarrow> v)"
| "get_prop v k = JUndefined"

definition nullish :: "jsval \<Rightarrow> bool" where
  "nullish v = (v = JNull \<or> v = JUndefined)"

text \<open>\<open>x?.k\<close>: undefined on null and undefined, the property otherwise.\<close>

definition opt_prop :: "jsval \<Rightarrow> string \<Rightarrow> jsval" where
  "opt_prop v k = (if nullish v then JUndefined else get_prop v k)"

text \<open>
  A state variable of type \<open>DetectionData | null\<close> is a \<open>record_payload option\<close>;
  \<open>detectionData?.k\<close> reads through it.
\<close>

definition field :: "record_payload option \<Rightarrow> string \<Rightarrow> jsval" where
  "field d k = (case d of None \<Rightarrow> JUndefined | Some r \<Rightarrow> get_prop (JObj r) k)"

subsection \<open>Strings\<close>

text \<open>
  \<open>String.prototype.trim\<close> strips white space and line terminators from both ends. A
  string is a list of 8-bit code units here; the white space among them is TAB, LF, VT,
  FF, CR, SPACE and NBSP.
\<close>

definition is_ws :: "char \<Rightarrow> bool" where
  "is_ws c = (c \<in> set [CHR 0x09, CHR 0x0A, CHR 0x0B, CHR 0x0C, CHR 0x0D, CHR 0x20, CHR 0xA0])"

definition trim :: "string \<Rightarrow> string" where
  "trim s = rev (dropWhile is_ws (rev (dropWhile is_ws s)))"

text \<open>The words of the specification: an input that is empty or white space only.\<close>

definition whitespace_only :: "string \<Rightarrow> bool" where
  "whitespace_only s = list_all is_ws s"

text \<open>The decimal numeral of a non-negative integer, as a template literal prints it.\<close>

definition digit_char :: "nat \<Rightarrow> char" where
  "digit_char n = ''0123456789'' ! (n mod 10)"

function show_nat :: "nat \<Rightarrow> string" where
  "show_nat n = (if n < 10 then [digit_char n] else show_nat (n div 10) @ [digit_char n])"
  by pat_completeness auto
termination
  by (relation "measure (\<lambda>n. n)") auto

declare show_nat.simps [simp del]

subsection \<open>Transport calls and their outcomes\<close>

text \<open>
  The three variants reach the backend through \<open>falcon.functions.post(name, arg)\<close>,
  \<open>falcon.fn.execute(name, arg)\<close> and \<open>fetch(url, {method: 'POST', body})\<close>. Every
  state below keeps the log of the calls it has issued.
\<close>

datatype transport_call =
    FunctionsPost string jsval
  | FnExecute string jsval
  | FetchPost string jsval

text \<open>
  What a catch clause receives: an instance of Error with its message, or any other
  thrown value.
\<close>

datatype js_thrown = ErrorObj string | Thrown jsval

text \<open>The awaited promise of an RPC: rejected, or resolved with a value.\<close>

datatype rpc_outcome = Rejected js_thrown | Resolved jsval

text \<open>
  The awaited promise of \<open>fetch\<close>: rejected (network failure), or a response with its
  HTTP status and what \<open>response.json()\<close> settles to.
\<close>

datatype json_body = BadJson js_thrown | Json jsval

datatype fetch_outcome = FetchRejected js_thrown | FetchResponse nat json_body

text \<open>\<open>response.ok\<close>: the status is in the range 200 to 299.\<close>

definition response_ok :: "nat \<Rightarrow> bool" where
  "response_ok st = (200 \<le> st \<and> st \<le> 299)"

section \<open>The standalone page (ui/pages/ui-page/src/App.tsx)\<close>

datatype role = User | Assistant

record turn =
  role :: role
  content :: jsval

text \<open>
  A handler suspended at its \<open>await\<close> keeps the variables it closed over: which of the
  two handlers it is, and its own \<open>newHistory\<close>.
\<close>

datatype handler = AnalyzeLogs | ChatSubmit

record suspended =
  handler :: handler
  newHistory :: "turn list"

text \<open>
  The state variables of the component (\<open>falcon\<close> is the connected client or null),
  the log of transport calls, and the handlers waiting for their response.
\<close>

record page_state =
  falcon :: bool
  logs :: string
  chatInput :: string
  chatHistory :: "turn list"
  loading :: bool
  error :: "jsval option"
  calls :: "transport_call list"
  inflight :: "suspended list"

definition page_init :: page_state where
  "page_init = \<lparr>falcon = True, logs = [], chatInput = [], chatHistory = [],
     loading = False, error = None, calls = [], inflight = []\<rparr>"

text \<open>\<open>handleAnalyzeLogs\<close> up to its \<open>await\<close>.\<close>

definition handleAnalyzeLogs :: "page_state \<Rightarrow> page_state" where
  "handleAnalyzeLogs s =
     (if \<not> falcon s \<or> trim (logs s) = [] then s
      else
        let nh = chatHistory s @
              [\<lparr>role = User, content = JStr (''Analyze these logs:'' @ [CHR 0x0A] @ logs s)\<rparr>]
        in s\<lparr>loading := True, error := None, chatHistory := nh,
              calls := calls s @
                [FunctionsPost ''handle_triage_request'' (JObj [(''logs'', JStr (logs s))])],
              inflight := inflight s @ [\<lparr>handler = AnalyzeLogs, newHistory = nh\<rparr>]\<rparr>)"

text \<open>\<open>handleChatSubmit\<close> up to its \<open>await\<close>.\<close>

definition handleChatSubmit :: "page_state \<Rightarrow> page_state" where
  "handleChatSubmit s =
     (if \<not> falcon s \<or> trim (chatInput s) = [] then s
      else
        let message = chatInput s;
            nh = chatHistory s @ [\<lparr>role = User, content = JStr message\<rparr>]
        in s\<lparr>chatInput := [], loading := True, error := None, chatHistory := nh,
              calls := calls s @
                [FunctionsPost ''handle_triage_request'' (JObj [(''message'', JStr message)])],
              inflight := inflight s @ [\<lparr>handler = ChatSubmit, newHistory = nh\<rparr>]\<rparr>)"

text \<open>
  The test \<open>response && response.status === 'success'\<close> of both handlers.
\<close>

definition is_success :: "jsval \<Rightarrow> bool" where
  "is_success response = (truthy response \<and> get_prop response ''status'' = JStr ''success'')"

definition fallback_text :: "handler \<Rightarrow> string" where
  "fallback_text h = (case h of AnalyzeLogs \<Rightarrow> ''Analysis failed.'' | ChatSubmit \<Rightarrow> ''Chat failed.'')"

text \<open>
  The rest of either handler, run when the awaited call settles: the try block after the
  \<open>await\<close>, the catch clause, and the finally clause.
\<close>

definition resume :: "suspended \<Rightarrow> rpc_outcome \<Rightarrow> page_state \<Rightarrow> page_state" where
  "resume p out s =
     (let s' =
        (case out of
           Rejected e \<Rightarrow> s\<lparr>error := Some (JStr ''Error calling AI service.'')\<rparr>
         | Resolved response \<Rightarrow>
             if is_success response
             then s\<lparr>chatHistory := newHistory p @
                      [\<lparr>role = Assistant, content = get_prop response ''response''\<rparr>]\<rparr>
             else s\<lparr>error := Some (js_or (opt_prop response ''message'')
                                        (JStr (fallback_text (handler p))))\<rparr>)
      in s'\<lparr>loading := False\<rparr>)"


text \<open>The \<open>i\<close>-th waiting handler receives its outcome.\<close>

definition settle :: "nat \<Rightarrow> rpc_outcome \<Rightarrow> page_state \<Rightarrow> page_state" where
  "settle i out s =
     (if i < length (inflight s)
      then resume (inflight s ! i) out
             (s\<lparr>inflight := take i (inflight s) @ drop (Suc i) (inflight s)\<rparr>)
      else s)"

text \<open>
  The events of the page. Both buttons carry a \<open>disabled\<close> attribute, and a disabled
  button delivers no click; the text input calls \<open>handleChatSubmit\<close> on the Enter key.
\<close>

definition input_logs :: "string \<Rightarrow> page_state \<Rightarrow> page_state" where
  "input_logs v s = s\<lparr>logs := v\<rparr>"

definition input_chat :: "string \<Rightarrow> page_state \<Rightarrow> page_state" where
  "input_chat v s = s\<lparr>chatInput := v\<rparr>"

definition click_analyze_logs :: "page_state \<Rightarrow> page_state" where
  "click_analyze_logs s = (if loading s \<or> trim (logs s) = [] then s else handleAnalyzeLogs s)"

definition click_send :: "page_state \<Rightarrow> page_state" where
  "click_send s = (if loading s \<or> trim (chatInput s) = [] then s else handleChatSubmit s)"

definition keydown :: "string \<Rightarrow> page_state \<Rightarrow> page_state" where
  "keydown key s = (if key = ''Enter'' then handleChatSubmit s else s)"

section \<open>The azure-analyst panel (ui/extensions/azure-analyst/src/App.tsx)\<close>

text \<open>
  The state variables of the component that its handlers read or write, and the log of
  transport calls. \<open>analysisResult\<close> holds the parsed response body or null.
\<close>

record app_state =
  detectionData :: "record_payload option"
  isLoading :: bool
  analysisResult :: "jsval option"
  app_error :: "jsval option"
  app_calls :: "transport_call list"

definition app_init :: app_state where
  "app_init = \<lparr>detectionData = None, isLoading = False, analysisResult = None,
     app_error = None, app_calls = []\<rparr>"

text \<open>The handler registered with \<open>client.events.on('data', ...)\<close>.\<close>

definition on_data :: "record_payload \<Rightarrow> app_state \<Rightarrow> app_state" where
  "on_data d s = s\<lparr>detectionData := Some d, analysisResult := None, app_error := None\<rparr>"

text \<open>\<open>handleAnalyzeClick\<close> up to its \<open>await\<close>.\<close>

definition handleAnalyzeClick :: "app_state \<Rightarrow> app_state" where
  "handleAnalyzeClick s =
     (case detectionData s of
        None \<Rightarrow> s\<lparr>app_error := Some (JStr ''No detection data available to analyze'')\<rparr>
      | Some d \<Rightarrow>
          s\<lparr>isLoading := True, app_error := None, analysisResult := None,
            app_calls := app_calls s @ [FetchPost ''/api/functions/azure_analyzer'' (JObj d)]\<rparr>)"

text \<open>
  The catch clause: \<open>err instanceof Error ? err.message : 'An unexpected error occurred'\<close>.
\<close>

definition catch_text :: "js_thrown \<Rightarrow> string" where
  "catch_text e = (case e of ErrorObj m \<Rightarrow> m | Thrown v \<Rightarrow> ''An unexpected error occurred'')"

text \<open>
  Reading \<open>result.status\<close> when the body is the JSON value null throws a TypeError; its
  message is the engine's (V8's wording here).
\<close>

definition null_status_message :: string where
  "null_status_message = ''Cannot read properties of null (reading 'status')''"

text \<open>
  What the try block after the \<open>await\<close> does with the outcome of \<open>fetch\<close>: it throws
  (\<open>Inl\<close>), or it ends having set the result or the error (\<open>Inr\<close>).
\<close>

definition analyze_try :: "fetch_outcome \<Rightarrow> app_state \<Rightarrow> js_thrown + app_state" where
  "analyze_try out s =
     (case out of
        FetchRejected e \<Rightarrow> Inl e
      | FetchResponse st body \<Rightarrow>
          if \<not> response_ok st then Inl (ErrorObj (''HTTP error! status: '' @ show_nat st))
          else
            (case body of
               BadJson e \<Rightarrow> Inl e
             | Json result \<Rightarrow>
                 if nullish result then Inl (ErrorObj null_status_message)
                 else if get_prop result ''status'' = JStr ''success''
                 then Inr (s\<lparr>analysisResult := Some result\<rparr>)
                 else Inr (s\<lparr>app_error :=
                        Some (js_or (get_prop result ''message'') (JStr ''Analysis failed''))\<rparr>)))"

text \<open>The rest of \<open>handleAnalyzeClick\<close>: try, catch and finally.\<close>

definition handleAnalyzeClick_resume :: "fetch_outcome \<Rightarrow> app_state \<Rightarrow> app_state" where
  "handleAnalyzeClick_resume out s =
     (let s' = (case analyze_try out s of
                  Inl e \<Rightarrow> s\<lparr>app_error := Some (JStr (catch_text e))\<rparr>
                | Inr t \<Rightarrow> t)
      in s'\<lparr>isLoading := False\<rparr>)"

text \<open>
  The outcomes on which the try block sets the result: a response with a 2xx status whose
  body parses to a value with \<open>status === 'success'\<close>. On every other outcome the
  call has failed.
\<close>

definition fetch_succeeds :: "fetch_outcome \<Rightarrow> bool" where
  "fetch_succeeds out =
     (case out of
        FetchRejected e \<Rightarrow> False
      | FetchResponse st body \<Rightarrow>
          response_ok st \<and>
          (case body of
             BadJson e \<Rightarrow> False
           | Json result \<Rightarrow> \<not> nullish result \<and> get_prop result ''status'' = JStr ''success''))"

text \<open>
  The two buttons: "Analyze" is rendered when there is a record, "Re-analyze" when there
  is a result, and both are disabled while \<open>isLoading\<close>.
\<close>

definition click_analyze :: "app_state \<Rightarrow> app_state" where
  "click_analyze s =
     (if detectionData s = None \<or> isLoading s then s else handleAnalyzeClick s)"

definition click_reanalyze :: "app_state \<Rightarrow> app_state" where
  "click_reanalyze s =
     (if analysisResult s = None \<or> isLoading s then s else handleAnalyzeClick s)"

text \<open>The display helpers of the panel.\<close>

definition getHostName :: "record_payload option \<Rightarrow> jsval" where
  "getHostName d =
     js_or (field d ''hostname'')
       (js_or (field d ''host_name'')
          (js_or (field d ''device_name'') (JStr ''Unknown Device'')))"

definition getDetectionName :: "record_payload option \<Rightarrow> jsval" where
  "getDetectionName d =
     js_or (field d ''name'') (js_or (field d ''detection_name'') (JStr ''Unknown Detection''))"

text \<open>
  The words of the specification: an alias is present (non-empty), and a display field is
  the value of the first present alias of an ordered list, a sentinel when there is none.
  For a string, the declared type of these fields, present is: bound to a non-empty string.
\<close>

definition alias_present :: "record_payload \<Rightarrow> string \<Rightarrow> bool" where
  "alias_present d k = (case map_of d k of None \<Rightarrow> False | Some v \<Rightarrow> truthy v)"

definition resolve_alias :: "record_payload \<Rightarrow> string list \<Rightarrow> jsval \<Rightarrow> jsval" where
  "resolve_alias d aliases sentinel =
     (case find (alias_present d) aliases of
        None \<Rightarrow> sentinel
      | Some k \<Rightarrow> (case map_of d k of None \<Rightarrow> sentinel | Some v \<Rightarrow> v))"

section \<open>The triage extension (ui/extensions/ui-extension/src/App.tsx)\<close>

text \<open>
  The component renders three fields of the record it holds (it renders them only when
  \<open>detectionData\<close> is not null): \<open>detectionData.name || 'Unknown'\<close>, and the same for
  severity and tactic.
\<close>

record display_fields =
  shown_name :: jsval
  shown_severity :: jsval
  shown_tactic :: jsval

definition render_fields :: "record_payload \<Rightarrow> display_fields" where
  "render_fields d =
     \<lparr>shown_name = js_or (get_prop (JObj d) ''name'') (JStr ''Unknown''),
      shown_severity = js_or (get_prop (JObj d) ''severity'') (JStr ''Unknown''),
      shown_tactic = js_or (get_prop (JObj d) ''tactic'') (JStr ''Unknown'')\<rparr>"

section \<open>The azure-analyst extension (ui/extensions/azure-analyst/src/extension.tsx)\<close>

record ext_state =
  ext_data :: "record_payload option"
  ext_analysis :: "jsval option"
  ext_loading :: bool
  ext_error :: "jsval option"
  ext_calls :: "transport_call list"

text \<open>The argument of the RPC: \<open>{type: data.incident_id ? 'incident' : 'detection', data: data}\<close>.\<close>

definition analyzer_arg :: "record_payload \<Rightarrow> jsval" where
  "analyzer_arg d =
     JObj [(''type'', JStr (if truthy (get_prop (JObj d) ''incident_id'')
                            then ''incident'' else ''detection'')),
           (''data'', JObj d)]"

text \<open>\<open>handleAnalyze\<close> up to its \<open>await\<close>.\<close>

definition handleAnalyze :: "ext_state \<Rightarrow> ext_state" where
  "handleAnalyze s =
     (case ext_data s of
        None \<Rightarrow> s\<lparr>ext_error := Some (JStr ''No detection or incident data available'')\<rparr>
      | Some d \<Rightarrow>
          s\<lparr>ext_loading := True, ext_error := None,
            ext_analysis := Some (JObj [(''status'', JStr ''loading'')]),
            ext_calls := ext_calls s @ [FnExecute ''azure_analyzer'' (analyzer_arg d)]\<rparr>)"

section \<open>Properties of the standalone page\<close>

subsection \<open>Blank input\<close>

lemma dropWhile_ws_Nil: "dropWhile is_ws s = [] \<longleftrightarrow> list_all is_ws s"
  by (simp add: dropWhile_eq_Nil_conv list_all_iff)

text \<open>\<open>trim\<close> leaves nothing exactly of the strings that are white space only.\<close>

lemma trim_empty_iff: "trim s = [] \<longleftrightarrow> whitespace_only s"
proof
  assume "trim s = []"
  then have a: "dropWhile is_ws (rev (dropWhile is_ws s)) = []"
    by (simp add: trim_def)
  show "whitespace_only s"
  proof (cases "dropWhile is_ws s")
    case Nil
    then show ?thesis using dropWhile_ws_Nil [of s] by (simp add: whitespace_only_def)
  next
    case (Cons c cs)
    then have "\<not> is_ws c" using hd_dropWhile [of is_ws s] by simp
    moreover from a Cons have "is_ws c"
      by simp
    ultimately show ?thesis by simp
  qed
next
  assume "whitespace_only s"
  then have "dropWhile is_ws s = []"
    using dropWhile_ws_Nil [of s] by (simp add: whitespace_only_def)
  then show "trim s = []" by (simp add: trim_def del: dropWhile_eq_Nil_conv)
qed

text \<open>
  Claim C7. When the text in the chat input, or in the logs area, is empty or white space
  only, both handlers return at their first line: the state is left as it was, so no
  transport call is logged, no turn is appended and nothing is dispatched. This holds
  for the handlers themselves and so for every event that calls them (the Send button,
  the Enter key, the Analyze Logs button).
\<close>

theorem blank_input_rejected:
  assumes "whitespace_only txt"
  shows "handleChatSubmit (input_chat txt s) = input_chat txt s
       \<and> handleAnalyzeLogs (input_logs txt s) = input_logs txt s
       \<and> keydown ''Enter'' (input_chat txt s) = input_chat txt s
       \<and> click_send (input_chat txt s) = input_chat txt s
       \<and> click_analyze_logs (input_logs txt s) = input_logs txt s
       \<and> calls (handleChatSubmit (input_chat txt s)) = calls s
       \<and> chatHistory (handleChatSubmit (input_chat txt s)) = chatHistory s
       \<and> calls (handleAnalyzeLogs (input_logs txt s)) = calls s
       \<and> chatHistory (handleAnalyzeLogs (input_logs txt s)) = chatHistory s"
proof -
  from assms have t: "trim txt = []" by (simp add: trim_empty_iff)
  have c: "handleChatSubmit (input_chat txt s) = input_chat txt s"
    using t by (simp add: handleChatSubmit_def input_chat_def)
  have l: "handleAnalyzeLogs (input_logs txt s) = input_logs txt s"
    using t by (simp add: handleAnalyzeLogs_def input_logs_def)
  have k: "keydown ''Enter'' (input_chat txt s) = input_chat txt s"
    using c by (simp add: keydown_def)
  have cs: "click_send (input_chat txt s) = input_chat txt s"
    using c by (simp add: click_send_def)
  have cl: "click_analyze_logs (input_logs txt s) = input_logs txt s"
    using l by (simp add: click_analyze_logs_def)
  show ?thesis
    unfolding c l k cs cl by (simp add: input_chat_def input_logs_def)
qed

text \<open>The input made of a space, a tab and a line feed, on the initial page.\<close>

theorem blank_input_rejected_witness:
  "whitespace_only [CHR 0x20, CHR 0x09, CHR 0x0A]
   \<and> handleChatSubmit (input_chat [CHR 0x20, CHR 0x09, CHR 0x0A] page_init)
       = input_chat [CHR 0x20, CHR 0x09, CHR 0x0A] page_init
   \<and> calls (handleChatSubmit (input_chat [CHR 0x20, CHR 0x09, CHR 0x0A] page_init)) = []
   \<and> chatHistory (handleAnalyzeLogs (input_logs [CHR 0x20, CHR 0x09, CHR 0x0A] page_init)) = []"
proof -
  have w: "whitespace_only [CHR 0x20, CHR 0x09, CHR 0x0A]"
    by (simp add: whitespace_only_def is_ws_def)
  have i: "calls page_init = []" "chatHistory page_init = []"
    by (simp_all add: page_init_def)
  from w i blank_input_rejected [OF w, of page_init] show ?thesis
    by (simp add: input_chat_def input_logs_def)
qed

subsection \<open>Dispatch and completion\<close>

text \<open>What each handler does once its guard is passed.\<close>

lemma handleChatSubmit_dispatch:
  assumes "falcon s" "trim (chatInput s) \<noteq> []"
  shows "handleChatSubmit s =
     s\<lparr>chatInput := [], loading := True, error := None,
       chatHistory := chatHistory s @ [\<lparr>role = User, content = JStr (chatInput s)\<rparr>],
       calls := calls s @
         [FunctionsPost ''handle_triage_request'' (JObj [(''message'', JStr (chatInput s))])],
       inflight := inflight s @
         [\<lparr>handler = ChatSubmit,
           newHistory = chatHistory s @ [\<lparr>role = User, content = JStr (chatInput s)\<rparr>]\<rparr>]\<rparr>"
  using assms by (simp add: handleChatSubmit_def Let_def)

lemma handleAnalyzeLogs_dispatch:
  assumes "falcon s" "trim (logs s) \<noteq> []"
  shows "handleAnalyzeLogs s =
     s\<lparr>loading := True, error := None,
       chatHistory := chatHistory s @
         [\<lparr>role = User, content = JStr (''Analyze these logs:'' @ [CHR 0x0A] @ logs s)\<rparr>],
       calls := calls s @
         [FunctionsPost ''handle_triage_request'' (JObj [(''logs'', JStr (logs s))])],
       inflight := inflight s @
         [\<lparr>handler = AnalyzeLogs,
           newHistory = chatHistory s @
             [\<lparr>role = User, content = JStr (''Analyze these logs:'' @ [CHR 0x0A] @ logs s)\<rparr>]\<rparr>]\<rparr>"
  using assms by (simp add: handleAnalyzeLogs_def Let_def)

text \<open>Settling the handler that was suspended last.\<close>

lemma settle_newest:
  assumes "inflight t = xs @ [p]"
  shows "settle (length xs) out t = resume p out (t\<lparr>inflight := xs\<rparr>)"
  using assms by (simp add: settle_def)

lemma resume_success:
  assumes "is_success r"
  shows "chatHistory (resume p (Resolved r) s) =
           newHistory p @ [\<lparr>role = Assistant, content = get_prop r ''response''\<rparr>]"
  using assms by (simp add: resume_def)




lemma not_blank_examples: "trim ''hi'' \<noteq> []" "trim ''again'' \<noteq> []"
  by (simp_all add: trim_def is_ws_def)

lemma success_body:
  assumes "map_of body ''status'' = Some (JStr ''success'')"
  shows "is_success (JObj body)"
  using assms by (simp add: is_success_def)

text \<open>
  Claim C3. Let the response be an object whose \<open>status\<close> is \<open>'success'\<close> and whose
  \<open>response\<close> is \<open>x\<close>. For a chat message and for a log submission alike, the
  conversation after the completion is the conversation as the dispatch left it (the
  handler's own \<open>newHistory\<close>) followed by one assistant turn of content \<open>x\<close>, which is
  then the last turn. The last conjunct says the same of a handler resumed in any later
  state \<open>s'\<close>: the transcript becomes the \<open>newHistory\<close> it captured plus that one turn.
\<close>

theorem success_appends_assistant_turn:
  assumes "falcon s"
    and "map_of body ''status'' = Some (JStr ''success'')"
    and "map_of body ''response'' = Some x"
  shows "(trim (chatInput s) \<noteq> [] \<longrightarrow>
            chatHistory (settle (length (inflight s)) (Resolved (JObj body)) (handleChatSubmit s))
              = chatHistory (handleChatSubmit s) @ [\<lparr>role = Assistant, content = x\<rparr>]
          \<and> last (chatHistory (settle (length (inflight s)) (Resolved (JObj body))
                     (handleChatSubmit s)))
              = \<lparr>role = Assistant, content = x\<rparr>)
       \<and> (trim (logs s) \<noteq> [] \<longrightarrow>
            chatHistory (settle (length (inflight s)) (Resolved (JObj body)) (handleAnalyzeLogs s))
              = chatHistory (handleAnalyzeLogs s) @ [\<lparr>role = Assistant, content = x\<rparr>]
          \<and> last (chatHistory (settle (length (inflight s)) (Resolved (JObj body))
                     (handleAnalyzeLogs s)))
              = \<lparr>role = Assistant, content = x\<rparr>)
       \<and> chatHistory (resume p (Resolved (JObj body)) s')
              = newHistory p @ [\<lparr>role = Assistant, content = x\<rparr>]"
proof -
  have ok: "is_success (JObj body)" using assms(2) by (rule success_body)
  have x: "get_prop (JObj body) ''response'' = x" using assms(3) by simp
  have gen: "chatHistory (resume q (Resolved (JObj body)) t)
              = newHistory q @ [\<lparr>role = Assistant, content = x\<rparr>]" for q t
    using resume_success [OF ok, of q t] x by simp
  have chat: "chatHistory (settle (length (inflight s)) (Resolved (JObj body)) (handleChatSubmit s))
              = chatHistory (handleChatSubmit s) @ [\<lparr>role = Assistant, content = x\<rparr>]"
    if "trim (chatInput s) \<noteq> []"
  proof -
    note d = handleChatSubmit_dispatch [OF assms(1) that]
    have "inflight (handleChatSubmit s) = inflight s @
        [\<lparr>handler = ChatSubmit, newHistory = chatHistory (handleChatSubmit s)\<rparr>]"
      by (simp add: d)
    from settle_newest [OF this] show ?thesis by (simp add: gen)
  qed
  have logs: "chatHistory (settle (length (inflight s)) (Resolved (JObj body)) (handleAnalyzeLogs s))
              = chatHistory (handleAnalyzeLogs s) @ [\<lparr>role = Assistant, content = x\<rparr>]"
    if "trim (logs s) \<noteq> []"
  proof -
    note d = handleAnalyzeLogs_dispatch [OF assms(1) that]
    have "inflight (handleAnalyzeLogs s) = inflight s @
        [\<lparr>handler = AnalyzeLogs, newHistory = chatHistory (handleAnalyzeLogs s)\<rparr>]"
      by (simp add: d)
    from settle_newest [OF this] show ?thesis by (simp add: gen)
  qed
  show ?thesis using chat logs gen by simp
qed

text \<open>
  An example state: the initial page with the message "hi" typed in the chat input and
  one line of logs pasted.
\<close>

lemma example_page:
  "falcon (input_logs ''GET /'' (input_chat ''hi'' page_init))"
  "trim (chatInput (input_logs ''GET /'' (input_chat ''hi'' page_init))) \<noteq> []"
  "trim (logs (input_logs ''GET /'' (input_chat ''hi'' page_init))) \<noteq> []"
  "inflight (input_logs ''GET /'' (input_chat ''hi'' page_init)) = []"
  "chatHistory (input_logs ''GET /'' (input_chat ''hi'' page_init)) = []"
  "chatInput (input_logs ''GET /'' (input_chat ''hi'' page_init)) = ''hi''"
  "logs (input_logs ''GET /'' (input_chat ''hi'' page_init)) = ''GET /''"
  by (simp_all add: input_logs_def input_chat_def page_init_def trim_def is_ws_def)

text \<open>Either submission on the example state, answered by the body of the claim.\<close>

theorem success_appends_assistant_turn_witness:
  "falcon (input_logs ''GET /'' (input_chat ''hi'' page_init))
   \<and> map_of [(''status'', JStr ''success''), (''response'', JStr ''X'')] ''status''
        = Some (JStr ''success'')
   \<and> map_of [(''status'', JStr ''success''), (''response'', JStr ''X'')] ''response''
        = Some (JStr ''X'')
   \<and> trim (chatInput (input_logs ''GET /'' (input_chat ''hi'' page_init))) \<noteq> []
   \<and> trim (logs (input_logs ''GET /'' (input_chat ''hi'' page_init))) \<noteq> []
   \<and> chatHistory (settle 0
         (Resolved (JObj [(''status'', JStr ''success''), (''response'', JStr ''X'')]))
         (handleChatSubmit (input_logs ''GET /'' (input_chat ''hi'' page_init))))
       = [\<lparr>role = User, content = JStr ''hi''\<rparr>, \<lparr>role = Assistant, content = JStr ''X''\<rparr>]
   \<and> chatHistory (settle 0
         (Resolved (JObj [(''status'', JStr ''success''), (''response'', JStr ''X'')]))
         (handleAnalyzeLogs (input_logs ''GET /'' (input_chat ''hi'' page_init))))
       = [\<lparr>role = User, content = JStr (''Analyze these logs:'' @ [CHR 0x0A] @ ''GET /'')\<rparr>,
          \<lparr>role = Assistant, content = JStr ''X''\<rparr>]"
proof -
  let ?s = "input_logs ''GET /'' (input_chat ''hi'' page_init)"
  let ?b = "[(''status'', JStr ''success''), (''response'', JStr ''X'')]"
  have st: "map_of ?b ''status'' = Some (JStr ''success'')" by simp
  have re: "map_of ?b ''response'' = Some (JStr ''X'')" by simp
  have h: "chatHistory (handleChatSubmit ?s) = [\<lparr>role = User, content = JStr ''hi''\<rparr>]"
    by (simp add: handleChatSubmit_dispatch [OF example_page(1,2)] example_page(5,6))
  have l: "chatHistory (handleAnalyzeLogs ?s)
      = [\<lparr>role = User, content = JStr (''Analyze these logs:'' @ [CHR 0x0A] @ ''GET /'')\<rparr>]"
    by (simp add: handleAnalyzeLogs_dispatch [OF example_page(1,3)] example_page(5,7))
  from success_appends_assistant_turn [OF example_page(1) st re] example_page h l st re
  show ?thesis by simp
qed




subsection \<open>Starting while a request is pending\<close>

text \<open>Both buttons of the page are disabled while \<open>loading\<close>: a click starts nothing.\<close>

lemma click_send_while_loading: "loading s \<Longrightarrow> click_send s = s"
  by (simp add: click_send_def)

lemma click_analyze_logs_while_loading: "loading s \<Longrightarrow> click_analyze_logs s = s"
  by (simp add: click_analyze_logs_def)

text \<open>
  Claim C1. The Enter key of the chat input calls \<open>handleChatSubmit\<close> without looking
  at \<open>loading\<close>. On the initial page the user sends "hi" with Enter; the request is
  pending (\<open>loading\<close> holds). The user types "again": the Send button is disabled and a
  click on it does nothing, but Enter starts a second request: two transport calls are
  logged, a second user turn is appended, and two handlers wait for a response.
\<close>

theorem enter_key_while_loading:
  "loading (keydown ''Enter'' (input_chat ''hi'' page_init))
   \<and> click_send (input_chat ''again'' (keydown ''Enter'' (input_chat ''hi'' page_init)))
       = input_chat ''again'' (keydown ''Enter'' (input_chat ''hi'' page_init))
   \<and> calls (keydown ''Enter'' (input_chat ''again'' (keydown ''Enter'' (input_chat ''hi'' page_init))))
       = [FunctionsPost ''handle_triage_request'' (JObj [(''message'', JStr ''hi'')]),
          FunctionsPost ''handle_triage_request'' (JObj [(''message'', JStr ''again'')])]
   \<and> chatHistory (keydown ''Enter'' (input_chat ''again'' (keydown ''Enter'' (input_chat ''hi'' page_init))))
       = [\<lparr>role = User, content = JStr ''hi''\<rparr>, \<lparr>role = User, content = JStr ''again''\<rparr>]
   \<and> length (inflight (keydown ''Enter'' (input_chat ''again''
         (keydown ''Enter'' (input_chat ''hi'' page_init))))) = 2"
  by (simp add: keydown_def input_chat_def page_init_def handleChatSubmit_def click_send_def
        Let_def not_blank_examples)

section \<open>Properties of the azure-analyst panel\<close>

subsection \<open>Dispatch and completion\<close>

lemma show_nat_429: "show_nat 429 = ''429''"
  by (simp add: show_nat.simps [of 429] show_nat.simps [of 42] show_nat.simps [of 4]
        digit_char_def)

text \<open>What the handler does when there is a record.\<close>

lemma handleAnalyzeClick_dispatch:
  assumes "detectionData s = Some d"
  shows "handleAnalyzeClick s =
     s\<lparr>isLoading := True, app_error := None, analysisResult := None,
       app_calls := app_calls s @ [FetchPost ''/api/functions/azure_analyzer'' (JObj d)]\<rparr>"
  using assms by (simp add: handleAnalyzeClick_def)

text \<open>The three ways a response is handled, and what every failure has in common.\<close>

lemma resume_not_ok:
  assumes "\<not> response_ok st"
  shows "handleAnalyzeClick_resume (FetchResponse st body) s =
     s\<lparr>app_error := Some (JStr (''HTTP error! status: '' @ show_nat st)), isLoading := False\<rparr>"
  using assms by (simp add: handleAnalyzeClick_resume_def analyze_try_def catch_text_def)

lemma resume_fetch_success:
  assumes "response_ok st" "\<not> nullish result" "get_prop result ''status'' = JStr ''success''"
  shows "handleAnalyzeClick_resume (FetchResponse st (Json result)) s =
     s\<lparr>analysisResult := Some result, isLoading := False\<rparr>"
  using assms by (simp add: handleAnalyzeClick_resume_def analyze_try_def)

lemma resume_body_error:
  assumes "response_ok st" "\<not> nullish result" "get_prop result ''status'' \<noteq> JStr ''success''"
  shows "handleAnalyzeClick_resume (FetchResponse st (Json result)) s =
     s\<lparr>app_error := Some (js_or (get_prop result ''message'') (JStr ''Analysis failed'')),
       isLoading := False\<rparr>"
  using assms by (simp add: handleAnalyzeClick_resume_def analyze_try_def)

lemma resume_fetch_failure:
  assumes "\<not> fetch_succeeds out"
  shows "analysisResult (handleAnalyzeClick_resume out s) = analysisResult s
       \<and> app_error (handleAnalyzeClick_resume out s) \<noteq> None
       \<and> \<not> isLoading (handleAnalyzeClick_resume out s)
       \<and> detectionData (handleAnalyzeClick_resume out s) = detectionData s"
  using assms
  by (auto simp add: handleAnalyzeClick_resume_def analyze_try_def fetch_succeeds_def
        split: fetch_outcome.splits json_body.splits)

text \<open>Both buttons of the panel are disabled while \<open>isLoading\<close>: a click starts nothing.\<close>

lemma click_analyze_while_loading:
  "isLoading s \<Longrightarrow> click_analyze s = s \<and> click_reanalyze s = s"
  by (simp add: click_analyze_def click_reanalyze_def)

text \<open>
  Claim C10. With a record and a result on display, a click on "Re-analyze" clears the
  result in the same step that issues the call. When that call fails, in any of the ways
  it can (rejected fetch, status outside 2xx, unparsable or null body, a body whose
  status is not \<open>'success'\<close>), the result stays null and the error is set: the earlier
  analysis is not restored.
\<close>

theorem failed_reanalysis_loses_result:
  assumes "detectionData s = Some d"
    and "analysisResult s = Some r"
    and "\<not> isLoading s"
    and "\<not> fetch_succeeds out"
  shows "analysisResult (click_reanalyze s) = None
       \<and> app_calls (click_reanalyze s)
           = app_calls s @ [FetchPost ''/api/functions/azure_analyzer'' (JObj d)]
       \<and> analysisResult (handleAnalyzeClick_resume out (click_reanalyze s)) = None
       \<and> app_error (handleAnalyzeClick_resume out (click_reanalyze s)) \<noteq> None
       \<and> \<not> isLoading (handleAnalyzeClick_resume out (click_reanalyze s))"
proof -
  have c: "click_reanalyze s = handleAnalyzeClick s"
    using assms(2,3) by (simp add: click_reanalyze_def)
  note d = handleAnalyzeClick_dispatch [OF assms(1)]
  have a: "analysisResult (click_reanalyze s) = None" by (simp add: c d)
  have b: "app_calls (click_reanalyze s)
           = app_calls s @ [FetchPost ''/api/functions/azure_analyzer'' (JObj d)]"
    by (simp add: c d)
  from resume_fetch_failure [OF assms(4), of "click_reanalyze s"] a b show ?thesis
    by simp
qed

text \<open>A displayed result, a re-analysis, and a network failure.\<close>

theorem failed_reanalysis_loses_result_witness:
  "detectionData (app_init\<lparr>detectionData := Some [],
       analysisResult := Some (JObj [(''status'', JStr ''success''), (''analysis'', JStr ''benign'')])\<rparr>)
     = Some []
   \<and> analysisResult (app_init\<lparr>detectionData := Some [],
       analysisResult := Some (JObj [(''status'', JStr ''success''), (''analysis'', JStr ''benign'')])\<rparr>)
     = Some (JObj [(''status'', JStr ''success''), (''analysis'', JStr ''benign'')])
   \<and> \<not> isLoading (app_init\<lparr>detectionData := Some [],
       analysisResult := Some (JObj [(''status'', JStr ''success''), (''analysis'', JStr ''benign'')])\<rparr>)
   \<and> \<not> fetch_succeeds (FetchRejected (ErrorObj ''Failed to fetch''))
   \<and> analysisResult (handleAnalyzeClick_resume (FetchRejected (ErrorObj ''Failed to fetch''))
        (click_reanalyze (app_init\<lparr>detectionData := Some [],
           analysisResult := Some (JObj [(''status'', JStr ''success''), (''analysis'', JStr ''benign'')])\<rparr>)))
     = None
   \<and> app_error (handleAnalyzeClick_resume (FetchRejected (ErrorObj ''Failed to fetch''))
        (click_reanalyze (app_init\<lparr>detectionData := Some [],
           analysisResult := Some (JObj [(''status'', JStr ''success''), (''analysis'', JStr ''benign'')])\<rparr>)))
     = Some (JStr ''Failed to fetch'')"
proof -
  let ?s = "app_init\<lparr>detectionData := Some [],
       analysisResult := Some (JObj [(''status'', JStr ''success''), (''analysis'', JStr ''benign'')])\<rparr>"
  let ?out = "FetchRejected (ErrorObj ''Failed to fetch'')"
  have d: "detectionData ?s = Some []" by simp
  have r: "analysisResult ?s
      = Some (JObj [(''status'', JStr ''success''), (''analysis'', JStr ''benign'')])" by simp
  have l: "\<not> isLoading ?s" by (simp add: app_init_def)
  have f: "\<not> fetch_succeeds ?out" by (simp add: fetch_succeeds_def)
  have e: "app_error (handleAnalyzeClick_resume ?out t) = Some (JStr ''Failed to fetch'')" for t
    by (simp add: handleAnalyzeClick_resume_def analyze_try_def catch_text_def)
  from failed_reanalysis_loses_result [OF d r l f] d r l f e show ?thesis
    by simp
qed

subsection \<open>A new record while a request is pending\<close>

text \<open>
  Claim C2, as stated, fails. The analysis of record A is started; record B arrives and
  resets the panel; the response for A arrives and is stored as the result, next to
  record B. The only call ever issued carried record A.
\<close>

theorem stale_result_counterexample:
  "detectionData (handleAnalyzeClick_resume
       (FetchResponse 200 (Json (JObj [(''status'', JStr ''success''), (''analysis'', JStr ''about A'')])))
       (on_data [(''name'', JStr ''B'')]
          (click_analyze (on_data [(''name'', JStr ''A'')] app_init))))
     = Some [(''name'', JStr ''B'')]
   \<and> analysisResult (handleAnalyzeClick_resume
       (FetchResponse 200 (Json (JObj [(''status'', JStr ''success''), (''analysis'', JStr ''about A'')])))
       (on_data [(''name'', JStr ''B'')]
          (click_analyze (on_data [(''name'', JStr ''A'')] app_init))))
     = Some (JObj [(''status'', JStr ''success''), (''analysis'', JStr ''about A'')])
   \<and> app_calls (on_data [(''name'', JStr ''B'')]
          (click_analyze (on_data [(''name'', JStr ''A'')] app_init)))
     = [FetchPost ''/api/functions/azure_analyzer'' (JObj [(''name'', JStr ''A'')])]"
  by (simp add: handleAnalyzeClick_resume_def analyze_try_def on_data_def click_analyze_def
        handleAnalyzeClick_def app_init_def response_ok_def nullish_def)

text \<open>
  Claim C2, amended. The data event replaces the record and clears result and error at
  the moment it arrives; it neither cancels the pending request nor ends \<open>isLoading\<close>,
  and no generation is recorded anywhere. The response of the request started before the
  event is handled like any other: a success becomes the result shown with the new
  record, a failure becomes its error.
\<close>

theorem late_result_applied_after_reset:
  assumes "detectionData s = Some d0"
  shows "analysisResult (on_data d (handleAnalyzeClick s)) = None
       \<and> app_error (on_data d (handleAnalyzeClick s)) = None
       \<and> detectionData (on_data d (handleAnalyzeClick s)) = Some d
       \<and> isLoading (on_data d (handleAnalyzeClick s))
       \<and> detectionData (handleAnalyzeClick_resume out (on_data d (handleAnalyzeClick s))) = Some d
       \<and> (response_ok st \<and> \<not> nullish result \<and> get_prop result ''status'' = JStr ''success'' \<longrightarrow>
            analysisResult (handleAnalyzeClick_resume (FetchResponse st (Json result))
               (on_data d (handleAnalyzeClick s))) = Some result)
       \<and> (\<not> fetch_succeeds out \<longrightarrow>
            app_error (handleAnalyzeClick_resume out (on_data d (handleAnalyzeClick s))) \<noteq> None)"
proof -
  note h = handleAnalyzeClick_dispatch [OF assms]
  have a: "analysisResult (on_data d (handleAnalyzeClick s)) = None
       \<and> app_error (on_data d (handleAnalyzeClick s)) = None
       \<and> detectionData (on_data d (handleAnalyzeClick s)) = Some d
       \<and> isLoading (on_data d (handleAnalyzeClick s))"
    by (simp add: on_data_def h)
  have b: "detectionData (handleAnalyzeClick_resume out t) = detectionData t" for t
    by (simp add: handleAnalyzeClick_resume_def analyze_try_def
          split: fetch_outcome.splits json_body.splits)
  have c: "analysisResult (handleAnalyzeClick_resume (FetchResponse st (Json result)) t)
            = Some result"
    if "response_ok st" "\<not> nullish result" "get_prop result ''status'' = JStr ''success''" for t
    by (simp add: resume_fetch_success [OF that])
  have e: "app_error (handleAnalyzeClick_resume out t) \<noteq> None" if "\<not> fetch_succeeds out" for t
    using resume_fetch_failure [OF that, of t] by simp
  from a b c e show ?thesis by simp
qed

text \<open>Records A and B, with a successful and with a failed late response.\<close>

theorem late_result_applied_after_reset_witness:
  "detectionData (on_data [(''name'', JStr ''A'')] app_init) = Some [(''name'', JStr ''A'')]
   \<and> response_ok 200
   \<and> \<not> nullish (JObj [(''status'', JStr ''success''), (''analysis'', JStr ''about A'')])
   \<and> get_prop (JObj [(''status'', JStr ''success''), (''analysis'', JStr ''about A'')]) ''status''
       = JStr ''success''
   \<and> \<not> fetch_succeeds (FetchResponse 503 (BadJson (ErrorObj ''Unexpected token'')))
   \<and> analysisResult (handleAnalyzeClick_resume
        (FetchResponse 200 (Json (JObj [(''status'', JStr ''success''), (''analysis'', JStr ''about A'')])))
        (on_data [(''name'', JStr ''B'')]
           (handleAnalyzeClick (on_data [(''name'', JStr ''A'')] app_init))))
       = Some (JObj [(''status'', JStr ''success''), (''analysis'', JStr ''about A'')])
   \<and> app_error (handleAnalyzeClick_resume
        (FetchResponse 503 (BadJson (ErrorObj ''Unexpected token'')))
        (on_data [(''name'', JStr ''B'')]
           (handleAnalyzeClick (on_data [(''name'', JStr ''A'')] app_init))))
       \<noteq> None"
proof -
  let ?s = "on_data [(''name'', JStr ''A'')] app_init"
  let ?r = "JObj [(''status'', JStr ''success''), (''analysis'', JStr ''about A'')]"
  let ?bad = "FetchResponse 503 (BadJson (ErrorObj ''Unexpected token''))"
  have d: "detectionData ?s = Some [(''name'', JStr ''A'')]" by (simp add: on_data_def)
  have o: "response_ok 200" by (simp add: response_ok_def)
  have n: "\<not> nullish ?r" by (simp add: nullish_def)
  have g: "get_prop ?r ''status'' = JStr ''success''" by simp
  have f: "\<not> fetch_succeeds ?bad" by (simp add: fetch_succeeds_def response_ok_def)
  from late_result_applied_after_reset [OF d, of "[(''name'', JStr ''B'')]" ?bad 200 ?r]
    d o n g f
  show ?thesis by simp
qed

subsection \<open>Error texts\<close>

text \<open>
  Claim C8, as stated, fails. A response with status 429 whose body carries a message:
  the handler throws before it reads the body, and the error shown is the text of the
  thrown error, not the message of the body.
\<close>

theorem http_429_counterexample:
  "app_error (handleAnalyzeClick_resume
       (FetchResponse 429 (Json (JObj [(''status'', JStr ''error''), (''message'', JStr ''Rate limited'')])))
       (handleAnalyzeClick (on_data [] app_init)))
     = Some (JStr ''HTTP error! status: 429'')
   \<and> get_prop (JObj [(''status'', JStr ''error''), (''message'', JStr ''Rate limited'')]) ''message''
     = JStr ''Rate limited''
   \<and> JStr ''HTTP error! status: 429'' \<noteq> JStr ''Rate limited''"
  by (simp add: resume_not_ok response_ok_def show_nat_429)

text \<open>
  Claim C8, amended. In the panel a response whose status is outside 200..299 ends the
  request with the error text \<open>HTTP error! status: \<close> followed by the status code,
  whatever the body; no other classification is kept. The message of the body, or else a
  fixed fallback text, is the error when the status is 2xx and the body's \<open>status\<close> is
  not \<open>'success'\<close>. On the page, where the RPC shows no HTTP status, the same message or
  fallback is the error for a resolved value that is not a success, and a rejected call
  gives a fixed text.
\<close>

theorem rejected_response_error_text:
  "(\<not> response_ok st \<longrightarrow>
       handleAnalyzeClick_resume (FetchResponse st body) s
         = s\<lparr>app_error := Some (JStr (''HTTP error! status: '' @ show_nat st)),
             isLoading := False\<rparr>)
   \<and> (response_ok st \<and> \<not> nullish result \<and> get_prop result ''status'' \<noteq> JStr ''success'' \<longrightarrow>
       handleAnalyzeClick_resume (FetchResponse st (Json result)) s
         = s\<lparr>app_error := Some (if truthy (get_prop result ''message'')
                                 then get_prop result ''message'' else JStr ''Analysis failed''),
             isLoading := False\<rparr>)
   \<and> (\<not> is_success response \<longrightarrow>
       error (resume p (Resolved response) t)
         = Some (if truthy (opt_prop response ''message'') then opt_prop response ''message''
                 else JStr (case handler p of AnalyzeLogs \<Rightarrow> ''Analysis failed.''
                                            | ChatSubmit \<Rightarrow> ''Chat failed.''))
     \<and> \<not> loading (resume p (Resolved response) t))
   \<and> error (resume p (Rejected e) t) = Some (JStr ''Error calling AI service.'')"
proof -
  have a: "\<not> response_ok st \<longrightarrow>
       handleAnalyzeClick_resume (FetchResponse st body) s
         = s\<lparr>app_error := Some (JStr (''HTTP error! status: '' @ show_nat st)),
             isLoading := False\<rparr>"
    by (simp add: resume_not_ok)
  have b: "response_ok st \<and> \<not> nullish result \<and> get_prop result ''status'' \<noteq> JStr ''success'' \<longrightarrow>
       handleAnalyzeClick_resume (FetchResponse st (Json result)) s
         = s\<lparr>app_error := Some (if truthy (get_prop result ''message'')
                                 then get_prop result ''message'' else JStr ''Analysis failed''),
             isLoading := False\<rparr>"
    using resume_body_error [of st result s] by (simp add: js_or_def)
  have c: "\<not> is_success response \<longrightarrow>
       error (resume p (Resolved response) t)
         = Some (if truthy (opt_prop response ''message'') then opt_prop response ''message''
                 else JStr (case handler p of AnalyzeLogs \<Rightarrow> ''Analysis failed.''
                                            | ChatSubmit \<Rightarrow> ''Chat failed.''))
     \<and> \<not> loading (resume p (Resolved response) t)"
    by (simp add: resume_def js_or_def fallback_text_def)
  have d: "error (resume p (Rejected e) t) = Some (JStr ''Error calling AI service.'')"
    by (simp add: resume_def)
  from a b c d show ?thesis by blast
qed

text \<open>Status 429, a 2xx error body without a message, and an RPC error with one.\<close>

theorem rejected_response_error_text_witness:
  "\<not> response_ok 429
   \<and> app_error (handleAnalyzeClick_resume (FetchResponse 429 (BadJson (ErrorObj ''x''))) app_init)
       = Some (JStr ''HTTP error! status: 429'')
   \<and> response_ok 200 \<and> \<not> nullish (JObj [(''status'', JStr ''error'')])
   \<and> get_prop (JObj [(''status'', JStr ''error'')]) ''status'' \<noteq> JStr ''success''
   \<and> app_error (handleAnalyzeClick_resume
        (FetchResponse 200 (Json (JObj [(''status'', JStr ''error'')]))) app_init)
       = Some (JStr ''Analysis failed'')
   \<and> \<not> is_success (JObj [(''status'', JStr ''error''), (''message'', JStr ''quota'')])
   \<and> error (resume \<lparr>handler = AnalyzeLogs, newHistory = []\<rparr>
        (Resolved (JObj [(''status'', JStr ''error''), (''message'', JStr ''quota'')])) page_init)
       = Some (JStr ''quota'')"
proof -
  have a: "\<not> response_ok 429" by (simp add: response_ok_def)
  have b: "response_ok 200" by (simp add: response_ok_def)
  have c: "\<not> nullish (JObj [(''status'', JStr ''error'')])" by (simp add: nullish_def)
  have d: "get_prop (JObj [(''status'', JStr ''error'')]) ''status'' \<noteq> JStr ''success''" by simp
  have e: "\<not> is_success (JObj [(''status'', JStr ''error''), (''message'', JStr ''quota'')])"
    by (simp add: is_success_def)
  have m: "opt_prop (JObj [(''status'', JStr ''error''), (''message'', JStr ''quota'')]) ''message''
      = JStr ''quota''" by (simp add: opt_prop_def nullish_def)
  note r1 = rejected_response_error_text [of 429 "BadJson (ErrorObj ''x'')" app_init
      "JNull" "JObj [(''status'', JStr ''error''), (''message'', JStr ''quota'')]"
      "\<lparr>handler = AnalyzeLogs, newHistory = []\<rparr>" page_init "ErrorObj ''x''"]
  note r2 = rejected_response_error_text [of 200 "BadJson (ErrorObj ''x'')" app_init
      "JObj [(''status'', JStr ''error'')]" JNull
      "\<lparr>handler = AnalyzeLogs, newHistory = []\<rparr>" page_init "ErrorObj ''x''"]
  have x: "app_error (handleAnalyzeClick_resume (FetchResponse 429 (BadJson (ErrorObj ''x''))) app_init)
       = Some (JStr ''HTTP error! status: 429'')"
    using r1 a by (simp add: show_nat_429)
  have y: "app_error (handleAnalyzeClick_resume
        (FetchResponse 200 (Json (JObj [(''status'', JStr ''error'')]))) app_init)
       = Some (JStr ''Analysis failed'')"
    using r2 b c d by simp
  have z: "error (resume \<lparr>handler = AnalyzeLogs, newHistory = []\<rparr>
        (Resolved (JObj [(''status'', JStr ''error''), (''message'', JStr ''quota'')])) page_init)
       = Some (JStr ''quota'')"
    using r1 e m by simp
  from a b c d e x y z show ?thesis by simp
qed

subsection \<open>Display fields\<close>

lemma field_Some: "field (Some d) k = get_prop (JObj d) k"
  by (simp add: field_def)

lemma alias_present_truthy: "alias_present d k \<longleftrightarrow> truthy (get_prop (JObj d) k)"
  by (cases "map_of d k") (simp_all add: alias_present_def)

lemma alias_present_string:
  "map_of d k = Some (JStr v) \<Longrightarrow> alias_present d k \<longleftrightarrow> v \<noteq> []"
  by (simp add: alias_present_def)

lemma alias_absent: "map_of d k = None \<Longrightarrow> \<not> alias_present d k"
  by (simp add: alias_present_def)

text \<open>
  Claim C5. The host shown for a record is the value of the first of \<open>hostname\<close>,
  \<open>host_name\<close>, \<open>device_name\<close> that is present (bound to a truthy value: for a
  string, a non-empty one), and the sentinel \<open>Unknown Device\<close> when none is.
\<close>

theorem host_name_alias_order:
  "getHostName (Some d)
     = resolve_alias d [''hostname'', ''host_name'', ''device_name''] (JStr ''Unknown Device'')"
  by (auto simp add: getHostName_def resolve_alias_def field_Some js_or_def alias_present_def
        split: option.splits)

lemma host_examples:
  "getHostName (Some [(''hostname'', JStr ''''), (''device_name'', JStr ''pc-7''),
      (''host_name'', JStr ''srv'')]) = JStr ''srv''"
  "getHostName (Some []) = JStr ''Unknown Device''"
  "getHostName None = JStr ''Unknown Device''"
  by (simp_all add: getHostName_def field_def js_or_def)

section \<open>Properties of the triage extension and of the azure-analyst extension\<close>

text \<open>
  Claim C4, as stated, fails on the detection name of the azure-analyst panel: for the
  empty record its sentinel is \<open>Unknown Detection\<close>, not \<open>Unknown\<close>.
\<close>

theorem unknown_detection_counterexample:
  "getDetectionName (Some []) = JStr ''Unknown Detection''
   \<and> getDetectionName (Some []) \<noteq> JStr ''Unknown''"
  by (simp add: getDetectionName_def field_def js_or_def)

text \<open>
  Claim C4, amended. A display field none of whose aliases is in the record is shown as
  its sentinel, and nothing fails: in the triage extension \<open>Unknown\<close> for each of name,
  severity and tactic, so that the empty record gives \<open>Unknown\<close> three times; in the
  azure-analyst panel \<open>Unknown Detection\<close> for the detection name, whose aliases are
  \<open>name\<close> and \<open>detection_name\<close>.
\<close>

theorem absent_fields_give_sentinels:
  "(map_of d ''name'' = None \<longrightarrow> shown_name (render_fields d) = JStr ''Unknown'')
   \<and> (map_of d ''severity'' = None \<longrightarrow> shown_severity (render_fields d) = JStr ''Unknown'')
   \<and> (map_of d ''tactic'' = None \<longrightarrow> shown_tactic (render_fields d) = JStr ''Unknown'')
   \<and> render_fields [] = \<lparr>shown_name = JStr ''Unknown'', shown_severity = JStr ''Unknown'',
                          shown_tactic = JStr ''Unknown''\<rparr>
   \<and> (map_of d ''name'' = None \<and> map_of d ''detection_name'' = None \<longrightarrow>
        getDetectionName (Some d) = JStr ''Unknown Detection'')"
  by (simp add: render_fields_def getDetectionName_def field_def js_or_def)

text \<open>A record with a host name only.\<close>

theorem absent_fields_give_sentinels_witness:
  "map_of [(''hostname'', JStr ''pc-7'')] ''name'' = None
   \<and> map_of [(''hostname'', JStr ''pc-7'')] ''severity'' = None
   \<and> map_of [(''hostname'', JStr ''pc-7'')] ''tactic'' = None
   \<and> map_of [(''hostname'', JStr ''pc-7'')] ''detection_name'' = None
   \<and> shown_name (render_fields [(''hostname'', JStr ''pc-7'')]) = JStr ''Unknown''
   \<and> shown_severity (render_fields [(''hostname'', JStr ''pc-7'')]) = JStr ''Unknown''
   \<and> shown_tactic (render_fields [(''hostname'', JStr ''pc-7'')]) = JStr ''Unknown''
   \<and> getDetectionName (Some [(''hostname'', JStr ''pc-7'')]) = JStr ''Unknown Detection''"
proof -
  let ?d = "[(''hostname'', JStr ''pc-7'')]"
  have a: "map_of ?d ''name'' = None" "map_of ?d ''severity'' = None"
    "map_of ?d ''tactic'' = None" "map_of ?d ''detection_name'' = None" by simp_all
  from absent_fields_give_sentinels [of ?d] a show ?thesis by blast
qed

text \<open>
  Claim C9. When there is a record, \<open>handleAnalyze\<close> issues one call of
  \<open>azure_analyzer\<close> whose argument has the type \<open>incident\<close> exactly when the record
  has an \<open>incident_id\<close> with a truthy value, \<open>detection\<close> otherwise, and carries the
  record itself as \<open>data\<close>.
\<close>

theorem analyzer_call_argument:
  assumes "ext_data s = Some d"
  shows "ext_calls (handleAnalyze s) = ext_calls s @
           [FnExecute ''azure_analyzer''
              (JObj [(''type'', JStr (if (\<exists>v. map_of d ''incident_id'' = Some v \<and> truthy v)
                                     then ''incident'' else ''detection'')),
                     (''data'', JObj d)])]"
proof -
  have "truthy (get_prop (JObj d) ''incident_id'')
          \<longleftrightarrow> (\<exists>v. map_of d ''incident_id'' = Some v \<and> truthy v)"
    by (cases "map_of d ''incident_id''") simp_all
  then show ?thesis
    using assms by (simp add: handleAnalyze_def analyzer_arg_def)
qed

text \<open>A record with an incident id.\<close>

theorem analyzer_call_argument_witness:
  "ext_data \<lparr>ext_data = Some [(''id'', JStr ''7''), (''incident_id'', JStr ''inc:1'')],
       ext_analysis = None, ext_loading = False, ext_error = None, ext_calls = []\<rparr>
     = Some [(''id'', JStr ''7''), (''incident_id'', JStr ''inc:1'')]
   \<and> ext_calls (handleAnalyze
        \<lparr>ext_data = Some [(''id'', JStr ''7''), (''incident_id'', JStr ''inc:1'')],
         ext_analysis = None, ext_loading = False, ext_error = None, ext_calls = []\<rparr>)
     = [FnExecute ''azure_analyzer''
          (JObj [(''type'', JStr ''incident''),
                 (''data'', JObj [(''id'', JStr ''7''), (''incident_id'', JStr ''inc:1'')])])]"
proof -
  let ?d = "[(''id'', JStr ''7''), (''incident_id'', JStr ''inc:1'')]"
  let ?s = "\<lparr>ext_data = Some ?d, ext_analysis = None, ext_loading = False,
             ext_error = None, ext_calls = []\<rparr>"
  have d: "ext_data ?s = Some ?d" by simp
  have e: "\<exists>v. map_of ?d ''incident_id'' = Some v \<and> truthy v" by simp
  from analyzer_call_argument [OF d] d e show ?thesis by simp
qed

end
